theory Spec2Isabelle
  imports Main "HOL-Library.Word"
begin

unbundle bit_operations_syntax

section \<open>The YeeLoong laptop platform driver: SCI event pipeline\<close>

text \<open>
  A shallow embedding of the hotkey part of
  \<^verbatim>\<open>drivers/platform/mips/yeeloong_laptop.c\<close>: the video output
  controller, the keymap lookup with its direction detection, the per-event
  handlers, \<^verbatim>\<open>do_event_action\<close>, \<^verbatim>\<open>sci_irq_handler\<close> and
  \<^verbatim>\<open>sci_irq_init\<close>.

  A C \<^verbatim>\<open>int\<close> is a 32-bit word, compared with the signed orders
  \<open><s\<close> and \<open>\<le>s\<close>. The C statics of the driver, the embedded
  controller, the I/O ports and the calls into other subsystems are fields of one
  state record that every function takes and returns.
\<close>

type_synonym c_int = "32 word"

subsection \<open>Constants of the headers\<close>

text \<open>
  The event numbers, the EC register addresses and the input key codes are macros and
  enumerators of headers outside this file (\<^verbatim>\<open>ec_kb3310b.h\<close>,
  \<^verbatim>\<open>input-event-codes.h\<close>, \<^verbatim>\<open>cs5536.h\<close>). Their names are
  kept, and their values are a parameter \<open>H\<close> of every function that uses them.
\<close>

datatype event_name =
    EVENT_START | EVENT_END
  | EVENT_LID | EVENT_CAMERA | EVENT_SLEEP | EVENT_DISPLAY_TOGGLE
  | EVENT_SWITCHVIDEOMODE | EVENT_AUDIO_MUTE | EVENT_WLAN
  | EVENT_DISPLAY_BRIGHTNESS | EVENT_AUDIO_VOLUME
  | EVENT_CRT_DETECT | EVENT_USB_OC2 | EVENT_USB_OC0 | EVENT_AC_BAT

datatype reg_name =
    REG_LID_DETECT | REG_CRT_DETECT | REG_CAMERA_STATUS | REG_CAMERA_CONTROL
  | REG_USB2_FLAG | REG_USB0_FLAG | REG_DISPLAY_LCD | REG_AUDIO_MUTE
  | REG_DISPLAY_BRIGHTNESS | REG_AUDIO_VOLUME

datatype key_name =
    SW_LID | KEY_CAMERA | KEY_SLEEP | KEY_DISPLAYTOGGLE | KEY_SWITCHVIDEOMODE
  | KEY_MUTE | KEY_WLAN | KEY_BRIGHTNESSUP | KEY_BRIGHTNESSDOWN
  | KEY_VOLUMEUP | KEY_VOLUMEDOWN

record hdr =
  event_num :: "event_name \<Rightarrow> c_int"
  reg_addr :: "reg_name \<Rightarrow> c_int"
  key_code :: "key_name \<Rightarrow> 16 word"
  SCI_IRQ_NUM :: c_int
  DIVIL_LBAR_GPIO_MSR :: "32 word"

definition ON :: c_int where "ON = 1"
definition OFF :: c_int where "OFF = 0"
definition LCD :: c_int where "LCD = 0"
definition CRT :: c_int where "CRT = 1"

subsection \<open>State and effects\<close>

datatype power_supply = yeeloong_ac | yeeloong_bat

text \<open>What the driver does to the outside, in the order it does it.\<close>

datatype effect =
    Outb "8 word" "16 word"
  | Outl "32 word" "32 word"
  | Wrmsr "32 word" "32 word" "32 word"
  | EcWrite "16 word" "8 word"
  | EcQueryEventNum
  | Mdelay nat
  | LocalIrqSave
  | LocalIrqRestore
  | InputReportSwitch "16 word" bool
  | InputReportKey "16 word" bool
  | InputSync
  | PowerSupplyChanged power_supply
  | PrEmerg string

record driver_state =
  old_brightness_status :: c_int
  old_volume_status :: c_int
  video_output_status :: c_int
  ac_bat_initialized :: c_int
  ec_kb3310b_ver :: string
  ec_mem :: "16 word \<Rightarrow> 8 word"
  ec_query_ret :: c_int
  ec_event_num :: c_int
  seq_index :: "8 word"
  seq_regs :: "8 word \<Rightarrow> 8 word"
  port_in :: "16 word \<Rightarrow> 8 word"
  msr :: "32 word \<Rightarrow> 32 word \<times> 32 word"
  effects :: "effect list"

text \<open>
  The values the C initialisers give the statics when the module is loaded:
  \<^verbatim>\<open>old_brightness_status = -1\<close>, \<^verbatim>\<open>old_volume_status = -1\<close>,
  and zero for the statics without an initialiser. The rest of the state is the
  machine the driver is loaded on.
\<close>

definition static_init :: "driver_state \<Rightarrow> driver_state" where
  "static_init env = env\<lparr>old_brightness_status := - 1, old_volume_status := - 1,
     video_output_status := 0, ac_bat_initialized := 0\<rparr>"

definition emit :: "effect list \<Rightarrow> driver_state \<Rightarrow> driver_state" where
  "emit es s = s\<lparr>effects := effects s @ es\<rparr>"

subsection \<open>Collaborators outside the file\<close>

text \<open>
  Modelled from the spec: the EC transport (\<^verbatim>\<open>ec_read\<close>,
  \<^verbatim>\<open>ec_write\<close>, \<^verbatim>\<open>ec_query_event_num\<close>,
  \<^verbatim>\<open>ec_get_event_num\<close> of \<^verbatim>\<open>ec_kb3310b.c\<close>) is a synchronous
  read and write of byte registers addressed by an unsigned short, a query that returns
  a status, and the event number the EC answers with.
\<close>

definition ec_read :: "16 word \<Rightarrow> driver_state \<Rightarrow> 8 word" where
  "ec_read addr s = ec_mem s addr"

definition ec_write :: "16 word \<Rightarrow> 8 word \<Rightarrow> driver_state \<Rightarrow> driver_state" where
  "ec_write addr val s = emit [EcWrite addr val] (s\<lparr>ec_mem := (ec_mem s)(addr := val)\<rparr>)"

definition ec_query_event_num :: "driver_state \<Rightarrow> c_int \<times> driver_state" where
  "ec_query_event_num s = (ec_query_ret s, emit [EcQueryEventNum] s)"

definition ec_get_event_num :: "driver_state \<Rightarrow> c_int" where
  "ec_get_event_num s = ec_event_num s"

text \<open>
  Modelled from the spec: the platform register boundary (\<^verbatim>\<open>outb\<close>,
  \<^verbatim>\<open>inb\<close>, \<^verbatim>\<open>outl\<close>, \<^verbatim>\<open>_rdmsr\<close>,
  \<^verbatim>\<open>_wrmsr\<close> and \<^verbatim>\<open>mdelay\<close> of the architecture code) is a
  set of raw register reads and writes and a delay in milliseconds. The sequencer
  registers of the video chip are reached through the index port \<^verbatim>\<open>0x3c4\<close>
  and the data port \<^verbatim>\<open>0x3c5\<close>; every other port reads what the machine
  supplies. Every write and every delay is recorded among the effects.
\<close>

definition outb :: "8 word \<Rightarrow> 16 word \<Rightarrow> driver_state \<Rightarrow> driver_state" where
  "outb v port s =
     emit [Outb v port]
       (if port = 0x3c4 then s\<lparr>seq_index := v\<rparr>
        else if port = 0x3c5 then s\<lparr>seq_regs := (seq_regs s)(seq_index s := v)\<rparr>
        else s)"

definition inb :: "16 word \<Rightarrow> driver_state \<Rightarrow> 8 word" where
  "inb port s =
     (if port = 0x3c5 then seq_regs s (seq_index s)
      else if port = 0x3c4 then seq_index s
      else port_in s port)"

definition outl :: "32 word \<Rightarrow> 32 word \<Rightarrow> driver_state \<Rightarrow> driver_state" where
  "outl v port s = emit [Outl v port] s"

definition rdmsr :: "32 word \<Rightarrow> driver_state \<Rightarrow> 32 word \<times> 32 word" where
  "rdmsr r s = msr s r"

definition wrmsr :: "32 word \<Rightarrow> 32 word \<Rightarrow> 32 word \<Rightarrow> driver_state \<Rightarrow> driver_state" where
  "wrmsr r hi lo s = emit [Wrmsr r hi lo] (s\<lparr>msr := (msr s)(r := (hi, lo))\<rparr>)"

definition mdelay :: "nat \<Rightarrow> driver_state \<Rightarrow> driver_state" where
  "mdelay ms s = emit [Mdelay ms] s"

text \<open>
  Modelled from the spec: \<^verbatim>\<open>strncasecmp\<close> of the kernel library, a
  case-insensitive comparison of at most the first \<open>len\<close> bytes of two
  NUL-terminated strings, whose sign gives the lexicographic order. The end of the list
  is the terminating NUL.
\<close>

fun byte_at :: "string \<Rightarrow> 8 word" where
  "byte_at [] = 0"
| "byte_at (c # cs) = of_char c"

definition c_tolower :: "8 word \<Rightarrow> 8 word" where
  "c_tolower c = (if 0x41 \<le> c \<and> c \<le> 0x5A then c + 0x20 else c)"

fun strncasecmp :: "string \<Rightarrow> string \<Rightarrow> nat \<Rightarrow> c_int" where
  "strncasecmp s1 s2 0 = 0"
| "strncasecmp s1 s2 (Suc len) =
     (if byte_at s1 = 0 \<or> byte_at s2 = 0 then ucast (byte_at s1) - ucast (byte_at s2)
      else if byte_at s1 = byte_at s2 then
        (if len = 0 then ucast (byte_at s1) - ucast (byte_at s2)
         else strncasecmp (tl s1) (tl s2) len)
      else if c_tolower (byte_at s1) = c_tolower (byte_at s2) then
        (if len = 0 then ucast (c_tolower (byte_at s1)) - ucast (c_tolower (byte_at s2))
         else strncasecmp (tl s1) (tl s2) len)
      else ucast (c_tolower (byte_at s1)) - ucast (c_tolower (byte_at s2)))"

subsection \<open>The backlight helper and the video output controller\<close>

definition ec_version_before :: "string \<Rightarrow> driver_state \<Rightarrow> bool" where
  "ec_version_before version s \<longleftrightarrow> strncasecmp (ec_kb3310b_ver s) version 64 <s 0"

definition display_vo_set :: "c_int \<Rightarrow> c_int \<Rightarrow> driver_state \<Rightarrow> driver_state" where
  "display_vo_set display on s =
     (let addr = (if display = LCD then 0x31 else 0x21 :: c_int);
          s1 = outb (ucast addr) 0x3c4 s;
          value0 = (ucast (inb 0x3c5 s1) :: 64 word);
          value1 = (if display = LCD then value0 OR (if on \<noteq> 0 then 0x03 else 0x02)
                    else if on \<noteq> 0 then unset_bit 7 value0
                    else set_bit 7 value0);
          s2 = outb (ucast addr) 0x3c4 s1
      in outb (ucast value1) 0x3c5 s2)"

definition yeeloong_vo_set :: "c_int \<Rightarrow> c_int \<Rightarrow> driver_state \<Rightarrow> driver_state" where
  "yeeloong_vo_set lcd_status crt_status s =
     display_vo_set CRT crt_status (display_vo_set LCD lcd_status s)"

subsection \<open>The hotkey keymap\<close>

datatype ke_type = KE_KEY | KE_SW | KE_END

record key_entry =
  ke_type :: ke_type
  code :: "32 word"
  keycode :: "16 word"

definition yeeloong_keymap :: "hdr \<Rightarrow> key_entry list" where
  "yeeloong_keymap H =
    [\<lparr>ke_type = KE_SW, code = event_num H EVENT_LID, keycode = key_code H SW_LID\<rparr>,
     \<lparr>ke_type = KE_KEY, code = event_num H EVENT_CAMERA, keycode = key_code H KEY_CAMERA\<rparr>,
     \<lparr>ke_type = KE_KEY, code = event_num H EVENT_SLEEP, keycode = key_code H KEY_SLEEP\<rparr>,
     \<lparr>ke_type = KE_KEY, code = event_num H EVENT_DISPLAY_TOGGLE,
        keycode = key_code H KEY_DISPLAYTOGGLE\<rparr>,
     \<lparr>ke_type = KE_KEY, code = event_num H EVENT_SWITCHVIDEOMODE,
        keycode = key_code H KEY_SWITCHVIDEOMODE\<rparr>,
     \<lparr>ke_type = KE_KEY, code = event_num H EVENT_AUDIO_MUTE, keycode = key_code H KEY_MUTE\<rparr>,
     \<lparr>ke_type = KE_KEY, code = event_num H EVENT_WLAN, keycode = key_code H KEY_WLAN\<rparr>,
     \<lparr>ke_type = KE_KEY, code = event_num H EVENT_DISPLAY_BRIGHTNESS,
        keycode = key_code H KEY_BRIGHTNESSUP\<rparr>,
     \<lparr>ke_type = KE_KEY, code = event_num H EVENT_DISPLAY_BRIGHTNESS,
        keycode = key_code H KEY_BRIGHTNESSDOWN\<rparr>,
     \<lparr>ke_type = KE_KEY, code = event_num H EVENT_AUDIO_VOLUME,
        keycode = key_code H KEY_VOLUMEUP\<rparr>,
     \<lparr>ke_type = KE_KEY, code = event_num H EVENT_AUDIO_VOLUME,
        keycode = key_code H KEY_VOLUMEDOWN\<rparr>,
     \<lparr>ke_type = KE_END, code = 0, keycode = 0\<rparr>]"

text \<open>
  Modelled from the spec: \<^verbatim>\<open>sparse_keymap_entry_from_scancode\<close> of the
  input library resolves an entry of the keymap table keyed by the event code: the
  first entry before the \<^verbatim>\<open>KE_END\<close> marker whose code is the event, or
  \<^verbatim>\<open>NULL\<close>. A pointer into the table is the index of the entry.
\<close>

fun entry_from :: "key_entry list \<Rightarrow> 32 word \<Rightarrow> nat \<Rightarrow> nat option" where
  "entry_from [] c i = None"
| "entry_from (k # ks) c i =
     (if ke_type k = KE_END then None
      else if c = code k then Some i
      else entry_from ks c (Suc i))"

definition sparse_keymap_entry_from_scancode :: "hdr \<Rightarrow> 32 word \<Rightarrow> nat option" where
  "sparse_keymap_entry_from_scancode H c = entry_from (yeeloong_keymap H) c 0"

text \<open>
  Modelled from the spec: \<^verbatim>\<open>sparse_keymap_report_entry\<close> with
  autorelease reports a key entry as a press and a release, each followed by a
  synchronisation, and a switch entry as a switch state followed by a synchronisation.
\<close>

definition sparse_keymap_report_entry ::
  "key_entry \<Rightarrow> c_int \<Rightarrow> bool \<Rightarrow> driver_state \<Rightarrow> driver_state" where
  "sparse_keymap_report_entry ke val autorelease s =
     (case ke_type ke of
        KE_KEY \<Rightarrow>
          emit ([InputReportKey (keycode ke) (val \<noteq> 0), InputSync] @
                (if val \<noteq> 0 \<and> autorelease
                 then [InputReportKey (keycode ke) False, InputSync] else [])) s
      | KE_SW \<Rightarrow> emit [InputReportSwitch (keycode ke) (val \<noteq> 0), InputSync] s
      | KE_END \<Rightarrow> s)"

definition get_event_key_entry ::
  "hdr \<Rightarrow> c_int \<Rightarrow> c_int \<Rightarrow> driver_state \<Rightarrow> nat option \<times> driver_state" where
  "get_event_key_entry H event status s =
     (case sparse_keymap_entry_from_scancode H event of
        None \<Rightarrow> (None, s)
      | Some ke \<Rightarrow>
          if event = event_num H EVENT_DISPLAY_BRIGHTNESS then
            (Some (if status = 0 \<or> status <s old_brightness_status s then Suc ke else ke),
             s\<lparr>old_brightness_status := status\<rparr>)
          else if event = event_num H EVENT_AUDIO_VOLUME then
            (Some (if status = 0 \<or> status <s old_volume_status s then Suc ke else ke),
             s\<lparr>old_volume_status := status\<rparr>)
          else (Some ke, s))"

definition c_not :: "c_int \<Rightarrow> c_int" where
  "c_not x = (if x = 0 then 1 else 0)"

definition report_lid_switch :: "hdr \<Rightarrow> c_int \<Rightarrow> driver_state \<Rightarrow> c_int \<times> driver_state" where
  "report_lid_switch H status s =
     (status, emit [InputReportSwitch (key_code H SW_LID) (c_not status \<noteq> 0), InputSync] s)"

subsection \<open>The event handlers\<close>

definition crt_detect_handler :: "c_int \<Rightarrow> driver_state \<Rightarrow> c_int \<times> driver_state" where
  "crt_detect_handler status s =
     (status, if status \<noteq> 0 then yeeloong_vo_set ON ON s else yeeloong_vo_set ON OFF s)"

definition displaytoggle_handler :: "c_int \<Rightarrow> driver_state \<Rightarrow> c_int \<times> driver_state" where
  "displaytoggle_handler status s =
     (status, if ec_version_before ''EC_VER=PQ1D26'' s then display_vo_set LCD status s else s)"

definition switchvideomode_handler ::
  "hdr \<Rightarrow> c_int \<Rightarrow> driver_state \<Rightarrow> c_int \<times> driver_state" where
  "switchvideomode_handler H status s =
     (if ucast (ec_read (ucast (reg_addr H REG_CRT_DETECT)) s) = OFF then (0, s)
      else
        let v1 = video_output_status s + 1;
            v = (if 4 <s v1 then 1 else v1);
            s1 = s\<lparr>video_output_status := v\<rparr>;
            s2 = (if v = 1 then yeeloong_vo_set ON ON s1
                  else if v = 2 then yeeloong_vo_set OFF ON s1
                  else if v = 3 then yeeloong_vo_set OFF OFF s1
                  else if v = 4 then yeeloong_vo_set ON OFF s1
                  else display_vo_set LCD ON s1)
        in (v, s2))"

definition camera_handler :: "hdr \<Rightarrow> c_int \<Rightarrow> driver_state \<Rightarrow> c_int \<times> driver_state" where
  "camera_handler H status s =
     (let val = (ucast (ec_read (ucast (reg_addr H REG_CAMERA_CONTROL)) s) :: c_int)
      in (status,
          ec_write (ucast (reg_addr H REG_CAMERA_CONTROL)) (ucast (val OR push_bit 1 1)) s))"

definition usb2_handler :: "c_int \<Rightarrow> driver_state \<Rightarrow> c_int \<times> driver_state" where
  "usb2_handler status s = (status, emit [PrEmerg ''USB2 Over Current occurred\<newline>''] s)"

definition usb0_handler :: "c_int \<Rightarrow> driver_state \<Rightarrow> c_int \<times> driver_state" where
  "usb0_handler status s = (status, emit [PrEmerg ''USB0 Over Current occurred\<newline>''] s)"

definition ac_bat_handler :: "c_int \<Rightarrow> driver_state \<Rightarrow> c_int \<times> driver_state" where
  "ac_bat_handler status s =
     (status,
      if ac_bat_initialized s \<noteq> 0
      then emit [PowerSupplyChanged yeeloong_ac, PowerSupplyChanged yeeloong_bat] s
      else s)"

subsection \<open>Dispatch and the interrupt entry point\<close>

type_synonym sci_handler = "c_int \<Rightarrow> driver_state \<Rightarrow> c_int \<times> driver_state"

text \<open>
  The first \<^verbatim>\<open>switch\<close> of \<^verbatim>\<open>do_event_action\<close>: the register to
  read (0 for none) and the handler (\<^verbatim>\<open>NULL\<close> is \<open>None\<close>) of an event.
  The case labels are tried in the order of the source.
\<close>

definition event_binding :: "hdr \<Rightarrow> c_int \<Rightarrow> c_int \<times> sci_handler option" where
  "event_binding H event =
     (if event = event_num H EVENT_LID then (reg_addr H REG_LID_DETECT, None)
      else if event = event_num H EVENT_SWITCHVIDEOMODE
        then (0, Some (switchvideomode_handler H))
      else if event = event_num H EVENT_CRT_DETECT
        then (reg_addr H REG_CRT_DETECT, Some crt_detect_handler)
      else if event = event_num H EVENT_CAMERA
        then (reg_addr H REG_CAMERA_STATUS, Some (camera_handler H))
      else if event = event_num H EVENT_USB_OC2
        then (reg_addr H REG_USB2_FLAG, Some usb2_handler)
      else if event = event_num H EVENT_USB_OC0
        then (reg_addr H REG_USB0_FLAG, Some usb0_handler)
      else if event = event_num H EVENT_DISPLAY_TOGGLE
        then (reg_addr H REG_DISPLAY_LCD, Some displaytoggle_handler)
      else if event = event_num H EVENT_AUDIO_MUTE then (reg_addr H REG_AUDIO_MUTE, None)
      else if event = event_num H EVENT_DISPLAY_BRIGHTNESS
        then (reg_addr H REG_DISPLAY_BRIGHTNESS, None)
      else if event = event_num H EVENT_AUDIO_VOLUME then (reg_addr H REG_AUDIO_VOLUME, None)
      else if event = event_num H EVENT_AC_BAT then (0, Some ac_bat_handler)
      else (0, None))"

text \<open>
  The end of \<^verbatim>\<open>do_event_action\<close>, "Report current key to user-space": the
  entry resolved for the event is reported as the lid switch when its key code is
  \<^verbatim>\<open>SW_LID\<close>, and as a key press with autorelease otherwise; without an entry
  nothing is reported. The \<^verbatim>\<open>pr_debug\<close> line before it changes no state.
\<close>

definition report_current_key ::
  "hdr \<Rightarrow> c_int \<Rightarrow> c_int \<Rightarrow> driver_state \<Rightarrow> driver_state" where
  "report_current_key H event status s =
     (case get_event_key_entry H event status s of
        (None, s1) \<Rightarrow> s1
      | (Some ke, s1) \<Rightarrow>
          if keycode (yeeloong_keymap H ! ke) = key_code H SW_LID
          then snd (report_lid_switch H status s1)
          else sparse_keymap_report_entry (yeeloong_keymap H ! ke) 1 True s1)"

definition do_event_action :: "hdr \<Rightarrow> c_int \<Rightarrow> driver_state \<Rightarrow> driver_state" where
  "do_event_action H event s =
     (case event_binding H event of
        (reg, handler) \<Rightarrow>
          let status0 = (if reg \<noteq> 0 then ucast (ec_read (ucast reg) s) else 0) in
          (case (case handler of None \<Rightarrow> (status0, s) | Some h \<Rightarrow> h status0 s) of
             (status, s1) \<Rightarrow> report_current_key H event status s1))"

datatype irqreturn = IRQ_NONE | IRQ_HANDLED

definition sci_irq_handler :: "hdr \<Rightarrow> c_int \<Rightarrow> driver_state \<Rightarrow> irqreturn \<times> driver_state" where
  "sci_irq_handler H irq s =
     (if irq \<noteq> SCI_IRQ_NUM H then (IRQ_NONE, s)
      else case ec_query_event_num s of
        (ret, s1) \<Rightarrow>
          if ret <s 0 then (IRQ_NONE, s1)
          else
            let event = ec_get_event_num s1 in
            if event <s event_num H EVENT_START \<or> event_num H EVENT_END <s event
            then (IRQ_NONE, s1)
            else (IRQ_HANDLED, do_event_action H event s1))"

subsection \<open>Interrupt arming\<close>

definition msr_clear_bit10 :: "32 word \<Rightarrow> driver_state \<Rightarrow> driver_state" where
  "msr_clear_bit10 r s =
     (case rdmsr r s of (hi, lo) \<Rightarrow> wrmsr r hi (lo AND NOT (push_bit 10 1)) s)"

definition sci_irq_init :: "hdr \<Rightarrow> driver_state \<Rightarrow> c_int \<times> driver_state" where
  "sci_irq_init H s =
     (case rdmsr (DIVIL_LBAR_GPIO_MSR H) s of
        (hi0, lo0) \<Rightarrow>
          let gpio_base = lo0 AND 0xff00 in
          (case ec_query_event_num s of
             (ret, s1) \<Rightarrow>
               if ret \<noteq> 0 then (ret, s1)
               else
                 let s2 = mdelay 10000 s1;
                     s3 = emit [LocalIrqSave] s2;
                     s4 = msr_clear_bit10 0x80000024 s3;
                     s5 = msr_clear_bit10 0x80000025 s4;
                     s6 = (case rdmsr 0x80000023 s5 of
                             (hi, lo) \<Rightarrow> wrmsr 0x80000023 hi (lo OR push_bit 0 0x0a) s5);
                     s7 = emit [LocalIrqRestore] s6;
                     s8 = outl 0x00000800 (gpio_base OR 0xA0) s7;
                     s9 = outl 0x00000800 (gpio_base OR 0xA4) s8;
                     s10 = outl 0x00000800 (gpio_base OR 0xB8) s9
                 in (0, s10)))"

subsection \<open>Notions used to state the properties\<close>

text \<open>
  The sequencer register that \<^verbatim>\<open>display_vo_set\<close> selects for a display, and
  the byte it writes back given the byte it read.
\<close>

definition vo_reg :: "c_int \<Rightarrow> 8 word" where
  "vo_reg display = (if display = LCD then 0x31 else 0x21)"

definition vo_value :: "c_int \<Rightarrow> c_int \<Rightarrow> 8 word \<Rightarrow> 8 word" where
  "vo_value display on x =
     (if display = LCD then x OR (if on \<noteq> 0 then 3 else 2)
      else if on \<noteq> 0 then unset_bit 7 x else set_bit 7 x)"

text \<open>The CRT-presence register reads "detected" (anything but \<^verbatim>\<open>OFF\<close>).\<close>

definition crt_detected :: "hdr \<Rightarrow> driver_state \<Rightarrow> bool" where
  "crt_detected H s \<longleftrightarrow> ec_read (ucast (reg_addr H REG_CRT_DETECT)) s \<noteq> 0"

text \<open>
  The event numbers that name one event each are pairwise different
  (\<^verbatim>\<open>EVENT_START\<close> and \<^verbatim>\<open>EVENT_END\<close> are bounds and may coincide
  with one of them).
\<close>

definition events_distinct :: "hdr \<Rightarrow> bool" where
  "events_distinct H \<longleftrightarrow>
     distinct (map (event_num H)
       [EVENT_LID, EVENT_CAMERA, EVENT_SLEEP, EVENT_DISPLAY_TOGGLE, EVENT_SWITCHVIDEOMODE,
        EVENT_AUDIO_MUTE, EVENT_WLAN, EVENT_DISPLAY_BRIGHTNESS, EVENT_AUDIO_VOLUME,
        EVENT_CRT_DETECT, EVENT_USB_OC2, EVENT_USB_OC0, EVENT_AC_BAT])"

text \<open>
  The comparison in the words of the specification: the bytes of a C string up to its
  NUL, and the strict lexicographic order on the lower-cased first \<open>n\<close> bytes of
  two strings.
\<close>

definition c_str :: "string \<Rightarrow> 8 word list" where
  "c_str s = takeWhile (\<lambda>c. c \<noteq> 0) (map of_char s)"

definition caseless_before :: "nat \<Rightarrow> string \<Rightarrow> string \<Rightarrow> bool" where
  "caseless_before n a b \<longleftrightarrow>
     ord_class.lexordp (map c_tolower (take n (c_str a))) (map c_tolower (take n (c_str b)))"

text \<open>
  A display output pair in terms of the ports: the LCD byte of sequencer register
  \<^verbatim>\<open>0x31\<close> gets the bits 3 (on) or 2 (off) ORed in, then bit 7 of sequencer
  register \<^verbatim>\<open>0x21\<close> is cleared (CRT on) or set (CRT off); each register is
  selected twice through the index port and written once through the data port.
\<close>

definition output_pair :: "bool \<Rightarrow> bool \<Rightarrow> driver_state \<Rightarrow> driver_state" where
  "output_pair lcd_on crt_on s =
     s\<lparr>seq_index := 0x21,
       seq_regs := (seq_regs s)
         (0x31 := seq_regs s 0x31 OR (if lcd_on then 3 else 2),
          0x21 := (if crt_on then unset_bit 7 (seq_regs s 0x21) else set_bit 7 (seq_regs s 0x21))),
       effects := effects s @
         [Outb 0x31 0x3c4, Outb 0x31 0x3c4,
          Outb (seq_regs s 0x31 OR (if lcd_on then 3 else 2)) 0x3c5,
          Outb 0x21 0x3c4, Outb 0x21 0x3c4,
          Outb (if crt_on then unset_bit 7 (seq_regs s 0x21) else set_bit 7 (seq_regs s 0x21))
            0x3c5]\<rparr>"

text \<open>
  An interrupt invokes the switch-video-mode handler with the CRT detected: it is the
  SCI interrupt, the query does not fail, and the event number is in range and is the
  one of the switch-video-mode event, while the CRT-presence register reads "detected".
\<close>

definition invokes_toggle :: "hdr \<Rightarrow> c_int \<Rightarrow> driver_state \<Rightarrow> bool" where
  "invokes_toggle H irq s \<longleftrightarrow>
     irq = SCI_IRQ_NUM H \<and> \<not> ec_query_ret s <s 0 \<and>
     \<not> ec_event_num s <s event_num H EVENT_START \<and>
     \<not> event_num H EVENT_END <s ec_event_num s \<and>
     ec_event_num s = event_num H EVENT_SWITCHVIDEOMODE \<and> crt_detected H s"

text \<open>
  The states of the driver's lifetime: the module is loaded on some machine; then
  interrupts are served, the interrupt is armed again (at load and at every resume), and
  anything else happens that leaves the statics of the hotkey handlers alone. The flag
  tells whether, so far, some interrupt has invoked the switch-video-mode handler with
  the CRT detected.
\<close>

inductive reachable :: "hdr \<Rightarrow> bool \<Rightarrow> driver_state \<Rightarrow> bool" for H :: hdr where
  load: "reachable H False (static_init env)"
| interrupt: "reachable H toggled s \<Longrightarrow>
     reachable H (toggled \<or> invokes_toggle H irq s) (snd (sci_irq_handler H irq s))"
| arm: "reachable H toggled s \<Longrightarrow> reachable H toggled (snd (sci_irq_init H s))"
| other: "reachable H toggled s \<Longrightarrow> video_output_status s' = video_output_status s \<Longrightarrow>
          old_brightness_status s' = old_brightness_status s \<Longrightarrow>
          old_volume_status s' = old_volume_status s \<Longrightarrow> reachable H toggled s'"

subsection \<open>Concrete inputs\<close>

text \<open>
  One assignment of the header constants and one machine, on which the model is run in
  the examples below. The event numbers are pairwise different, as the enumerators of
  a C \<^verbatim>\<open>enum\<close> and the labels of a \<^verbatim>\<open>switch\<close> are.
\<close>

fun sample_event :: "event_name \<Rightarrow> c_int" where
  "sample_event EVENT_START = 0x23"
| "sample_event EVENT_LID = 0x23"
| "sample_event EVENT_DISPLAY_TOGGLE = 0x24"
| "sample_event EVENT_SLEEP = 0x25"
| "sample_event EVENT_CRT_DETECT = 0x27"
| "sample_event EVENT_CAMERA = 0x28"
| "sample_event EVENT_USB_OC2 = 0x29"
| "sample_event EVENT_USB_OC0 = 0x2A"
| "sample_event EVENT_SWITCHVIDEOMODE = 0x2B"
| "sample_event EVENT_AUDIO_MUTE = 0x2C"
| "sample_event EVENT_DISPLAY_BRIGHTNESS = 0x2D"
| "sample_event EVENT_AC_BAT = 0x2E"
| "sample_event EVENT_AUDIO_VOLUME = 0x2F"
| "sample_event EVENT_WLAN = 0x30"
| "sample_event EVENT_END = 0x31"

fun sample_reg :: "reg_name \<Rightarrow> c_int" where
  "sample_reg REG_LID_DETECT = 0xF4BD"
| "sample_reg REG_CRT_DETECT = 0xF4AD"
| "sample_reg REG_CAMERA_STATUS = 0xF46A"
| "sample_reg REG_CAMERA_CONTROL = 0xF7B7"
| "sample_reg REG_USB2_FLAG = 0xF4A8"
| "sample_reg REG_USB0_FLAG = 0xF460"
| "sample_reg REG_DISPLAY_LCD = 0xF79F"
| "sample_reg REG_AUDIO_MUTE = 0xF4E7"
| "sample_reg REG_DISPLAY_BRIGHTNESS = 0xF4F5"
| "sample_reg REG_AUDIO_VOLUME = 0xF46C"

fun sample_key :: "key_name \<Rightarrow> 16 word" where
  "sample_key SW_LID = 0"
| "sample_key KEY_CAMERA = 212"
| "sample_key KEY_SLEEP = 142"
| "sample_key KEY_DISPLAYTOGGLE = 431"
| "sample_key KEY_SWITCHVIDEOMODE = 227"
| "sample_key KEY_MUTE = 113"
| "sample_key KEY_WLAN = 238"
| "sample_key KEY_BRIGHTNESSUP = 225"
| "sample_key KEY_BRIGHTNESSDOWN = 224"
| "sample_key KEY_VOLUMEUP = 115"
| "sample_key KEY_VOLUMEDOWN = 114"

definition sample_hdr :: hdr where
  "sample_hdr = \<lparr>event_num = sample_event, reg_addr = sample_reg, key_code = sample_key,
     SCI_IRQ_NUM = 0x0A, DIVIL_LBAR_GPIO_MSR = 0x8000000C\<rparr>"

definition sample_env :: driver_state where
  "sample_env = \<lparr>old_brightness_status = 0, old_volume_status = 0, video_output_status = 0,
     ac_bat_initialized = 0, ec_kb3310b_ver = ''EC_VER=PQ1D20'',
     ec_mem = (\<lambda>a. 1), ec_query_ret = 0, ec_event_num = 0x2D,
     seq_index = 0, seq_regs = (\<lambda>r. 0), port_in = (\<lambda>p. 0),
     msr = (\<lambda>r. (0, 0xB000)), effects = []\<rparr>"

section \<open>Properties\<close>

subsection \<open>Bytes in a C int\<close>

lemmas prim_defs = emit_def outb_def inb_def outl_def rdmsr_def wrmsr_def mdelay_def
  ec_read_def ec_write_def ec_query_event_num_def ec_get_event_num_def

lemma uint_ucast_byte: "uint (ucast (b :: 8 word) :: c_int) = uint b"
  by (simp add: uint_up_ucast is_up)

lemma ucast_byte_eq_0 [simp]: "(ucast (b :: 8 word) :: c_int) = 0 \<longleftrightarrow> b = 0"
proof -
  have "(ucast b :: c_int) = 0 \<longleftrightarrow> uint (ucast b :: c_int) = 0"
    by (simp add: uint_0_iff)
  also have "\<dots> \<longleftrightarrow> b = 0"
    by (simp add: uint_ucast_byte uint_0_iff)
  finally show ?thesis .
qed

lemma sint_ucast_byte: "sint (ucast (b :: 8 word) :: c_int) = uint b"
proof -
  have lt: "uint b < 256" using uint_bounded [of b] by simp
  have ge: "0 \<le> uint b" by simp
  from lt ge have "- 2147483648 \<le> uint b" and "uint b < 2147483648"
    by linarith+
  then show ?thesis
    by (simp add: signed_ucast_eq signed_take_bit_int_eq_self)
qed

lemma ucast_byte_not_sless_m1: "\<not> (ucast (b :: 8 word) :: c_int) <s - 1"
proof -
  have "0 \<le> uint b" by simp
  then have "\<not> uint b < - 1" by linarith
  then show ?thesis by (simp add: word_sless_alt sint_ucast_byte)
qed

lemma byte_diff_sless_0:
  "(ucast (x :: 8 word) - ucast (y :: 8 word) :: c_int) <s 0 \<longleftrightarrow> x < y"
proof -
  have bx: "0 \<le> uint x" "uint x < 256" using uint_bounded [of x] by simp_all
  have "by": "0 \<le> uint y" "uint y < 256" using uint_bounded [of y] by simp_all
  from bx "by" have r: "- 2147483648 \<le> uint x - uint y" "uint x - uint y < 2147483648"
    by linarith+
  have "sint (ucast x - ucast y :: c_int) = uint x - uint y"
    using r by (simp add: sint_word_ariths sint_ucast_byte signed_take_bit_int_eq_self)
  then show ?thesis
    by (simp add: word_sless_alt word_less_def)
qed

lemma camera_bits: "(ucast ((ucast (b :: 8 word) :: c_int) OR 2) :: 8 word) = b OR 2"
  by (rule bit_word_eqI) (auto simp: bit_simps)

lemma vo_lcd_bits:
  "(ucast ((ucast (x :: 8 word) :: 64 word) OR 3) :: 8 word) = x OR 3"
  "(ucast ((ucast (x :: 8 word) :: 64 word) OR 2) :: 8 word) = x OR 2"
  by (rule bit_word_eqI; auto simp: bit_simps)+

lemma vo_crt_bits:
  "(ucast (unset_bit 7 (ucast (x :: 8 word) :: 64 word)) :: 8 word) = unset_bit 7 x"
  "(ucast (set_bit 7 (ucast (x :: 8 word) :: 64 word)) :: 8 word) = set_bit 7 x"
  by (rule bit_word_eqI; auto simp: bit_simps)+

subsection \<open>The video output controller\<close>

text \<open>
  One call of \<^verbatim>\<open>display_vo_set\<close> selects the display's sequencer register
  twice and writes the changed byte once; nothing else of the state moves.
\<close>

lemma display_vo_set_eq:
  "display_vo_set display on s =
     s\<lparr>seq_index := vo_reg display,
       seq_regs := (seq_regs s)(vo_reg display := vo_value display on (seq_regs s (vo_reg display))),
       effects := effects s @
         [Outb (vo_reg display) 0x3c4, Outb (vo_reg display) 0x3c4,
          Outb (vo_value display on (seq_regs s (vo_reg display))) 0x3c5]\<rparr>"
  by (simp add: display_vo_set_def Let_def prim_defs vo_reg_def vo_value_def vo_lcd_bits vo_crt_bits)

lemma display_vo_set_frame [simp]:
  "old_brightness_status (display_vo_set d on s) = old_brightness_status s"
  "old_volume_status (display_vo_set d on s) = old_volume_status s"
  "video_output_status (display_vo_set d on s) = video_output_status s"
  "ac_bat_initialized (display_vo_set d on s) = ac_bat_initialized s"
  "ec_kb3310b_ver (display_vo_set d on s) = ec_kb3310b_ver s"
  "ec_mem (display_vo_set d on s) = ec_mem s"
  by (simp_all add: display_vo_set_eq)

lemma display_vo_set_effects_neq: "effects (display_vo_set d on s) \<noteq> effects s"
  by (simp add: display_vo_set_eq)

lemma yeeloong_vo_set_frame [simp]:
  "old_brightness_status (yeeloong_vo_set l c s) = old_brightness_status s"
  "old_volume_status (yeeloong_vo_set l c s) = old_volume_status s"
  "video_output_status (yeeloong_vo_set l c s) = video_output_status s"
  "ac_bat_initialized (yeeloong_vo_set l c s) = ac_bat_initialized s"
  "ec_kb3310b_ver (yeeloong_vo_set l c s) = ec_kb3310b_ver s"
  "ec_mem (yeeloong_vo_set l c s) = ec_mem s"
  by (simp_all add: yeeloong_vo_set_def)

lemma yeeloong_vo_set_effects:
  "effects (yeeloong_vo_set l c s) = effects s @
     [Outb 0x31 0x3c4, Outb 0x31 0x3c4, Outb (vo_value LCD l (seq_regs s 0x31)) 0x3c5,
      Outb 0x21 0x3c4, Outb 0x21 0x3c4, Outb (vo_value CRT c (seq_regs s 0x21)) 0x3c5]"
  by (simp add: yeeloong_vo_set_def display_vo_set_eq vo_reg_def LCD_def CRT_def)

lemma static_init_fields [simp]:
  "old_brightness_status (static_init env) = - 1"
  "old_volume_status (static_init env) = - 1"
  "video_output_status (static_init env) = 0"
  by (simp_all add: static_init_def)

lemma crt_detected_vo [simp]:
  "crt_detected H (yeeloong_vo_set l c s) = crt_detected H s"
  "crt_detected H (s\<lparr>video_output_status := v\<rparr>) = crt_detected H s"
  by (simp_all add: crt_detected_def ec_read_def)


lemma switchvideomode_off:
  "\<not> crt_detected H s \<Longrightarrow> switchvideomode_handler H st s = (0, s)"
  by (simp add: switchvideomode_handler_def crt_detected_def OFF_def)

lemma sample_events_distinct: "events_distinct sample_hdr"
  by (simp add: events_distinct_def sample_hdr_def)




lemma output_pair_vos [simp]:
  "video_output_status (output_pair l c s) = video_output_status s"
  by (simp add: output_pair_def)




text \<open>
  The same five invocations at the ports of the sample machine, whose sequencer registers
  start at 0. The LCD byte is 3 from the first invocation on: "LCD off" ORs the bits 2
  into a byte that already has the bits 3, so only the CRT bit tells the outputs apart.
\<close>

lemma switchvideomode_cycle_sample_regs:
  "let s1 = snd (switchvideomode_handler sample_hdr 0 (static_init sample_env));
       s2 = snd (switchvideomode_handler sample_hdr 0 s1);
       s3 = snd (switchvideomode_handler sample_hdr 0 s2);
       s4 = snd (switchvideomode_handler sample_hdr 0 s3);
       s5 = snd (switchvideomode_handler sample_hdr 0 s4)
   in map (\<lambda>s. (video_output_status s, seq_regs s 0x31, seq_regs s 0x21)) [s1, s2, s3, s4, s5] =
        [(1, 3, 0), (2, 3, 0), (3, 3, 128), (4, 3, 128), (1, 3, 0)]"
  by code_simp

text \<open>
  C5. When the CRT-presence register reads "not detected", the handler returns 0 and
  the state it was called on: the cycle index is as before and no port is written.
\<close>

theorem switchvideomode_no_crt:
  "\<not> crt_detected H s \<Longrightarrow> switchvideomode_handler H st s = (0, s)"
  by (simp add: switchvideomode_handler_def crt_detected_def OFF_def)

theorem switchvideomode_no_crt_witness:
  "\<not> crt_detected sample_hdr (sample_env\<lparr>ec_mem := \<lambda>a. 0\<rparr>) \<and>
   switchvideomode_handler sample_hdr 0 (sample_env\<lparr>ec_mem := \<lambda>a. 0\<rparr>) =
     (0, sample_env\<lparr>ec_mem := \<lambda>a. 0\<rparr>)"
proof -
  have h: "\<not> crt_detected sample_hdr (sample_env\<lparr>ec_mem := \<lambda>a. 0\<rparr>)"
    by (simp add: crt_detected_def ec_read_def)
  show ?thesis using h switchvideomode_no_crt [OF h, of 0] by simp
qed

subsection \<open>The keymap and direction detection\<close>

text \<open>
  A pointer that the lookup returns, and the pointer one past it, stay inside the
  keymap table: the lookup stops before the \<^verbatim>\<open>KE_END\<close> entry.
\<close>

lemma entry_from_bound:
  "entry_from ks c i = Some j \<Longrightarrow>
     i \<le> j \<and> j - i < length ks \<and> ke_type (ks ! (j - i)) \<noteq> KE_END"
proof (induction ks arbitrary: i)
  case Nil
  then show ?case by simp
next
  case (Cons k ks)
  show ?case
  proof (cases "ke_type k = KE_END \<or> c = code k")
    case True
    with Cons.prems show ?thesis by (auto split: if_splits)
  next
    case False
    with Cons.prems have "entry_from ks c (Suc i) = Some j" by simp
    from Cons.IH [OF this] have "Suc i \<le> j" "j - Suc i < length ks"
      "ke_type (ks ! (j - Suc i)) \<noteq> KE_END" by simp_all
    moreover from \<open>Suc i \<le> j\<close> have "j - i = Suc (j - Suc i)" by simp
    ultimately show ?thesis by simp
  qed
qed

lemma keymap_length: "length (yeeloong_keymap H) = 12"
  by (simp add: yeeloong_keymap_def)

lemma keymap_last: "ke_type (yeeloong_keymap H ! 11) = KE_END"
  by (simp add: yeeloong_keymap_def)

lemma scancode_entry_in_range:
  assumes "sparse_keymap_entry_from_scancode H c = Some j"
  shows "j < 11"
proof -
  from assms have "entry_from (yeeloong_keymap H) c 0 = Some j"
    by (simp add: sparse_keymap_entry_from_scancode_def)
  from entry_from_bound [OF this]
  have "j < 12" and ne: "ke_type (yeeloong_keymap H ! j) \<noteq> KE_END"
    by (simp_all add: keymap_length)
  have "j \<noteq> 11" using ne keymap_last by auto
  with \<open>j < 12\<close> show ?thesis by simp
qed

lemma get_event_key_entry_in_range:
  "get_event_key_entry H e st s = (Some k, s') \<Longrightarrow> k < length (yeeloong_keymap H)"
  by (auto simp: get_event_key_entry_def keymap_length split: option.splits if_splits
      dest!: scancode_entry_in_range)

lemma lookup_brightness:
  "events_distinct H \<Longrightarrow>
     sparse_keymap_entry_from_scancode H (event_num H EVENT_DISPLAY_BRIGHTNESS) = Some 7"
  by (auto simp: events_distinct_def sparse_keymap_entry_from_scancode_def yeeloong_keymap_def
      eval_nat_numeral)

lemma lookup_volume:
  "events_distinct H \<Longrightarrow>
     sparse_keymap_entry_from_scancode H (event_num H EVENT_AUDIO_VOLUME) = Some 9"
  by (auto simp: events_distinct_def sparse_keymap_entry_from_scancode_def yeeloong_keymap_def
      eval_nat_numeral)

lemma lookup_lid:
  "sparse_keymap_entry_from_scancode H (event_num H EVENT_LID) = Some 0"
  by (simp add: sparse_keymap_entry_from_scancode_def yeeloong_keymap_def)

lemma keymap_direction_entries:
  "keycode (yeeloong_keymap H ! 7) = key_code H KEY_BRIGHTNESSUP"
  "keycode (yeeloong_keymap H ! 8) = key_code H KEY_BRIGHTNESSDOWN"
  "keycode (yeeloong_keymap H ! 9) = key_code H KEY_VOLUMEUP"
  "keycode (yeeloong_keymap H ! 10) = key_code H KEY_VOLUMEDOWN"
  by (simp_all add: yeeloong_keymap_def)

lemma keymap_nth_0:
  "yeeloong_keymap H ! 0 =
     \<lparr>ke_type = KE_SW, code = event_num H EVENT_LID, keycode = key_code H SW_LID\<rparr>"
  by (simp add: yeeloong_keymap_def)

lemma events_distinct_volume:
  "events_distinct H \<Longrightarrow>
     event_num H EVENT_AUDIO_VOLUME \<noteq> event_num H EVENT_DISPLAY_BRIGHTNESS"
  by (auto simp: events_distinct_def)

lemma events_distinct_lid:
  "events_distinct H \<Longrightarrow>
     event_num H EVENT_LID \<noteq> event_num H EVENT_DISPLAY_BRIGHTNESS \<and>
     event_num H EVENT_LID \<noteq> event_num H EVENT_AUDIO_VOLUME"
  by (auto simp: events_distinct_def)

text \<open>
  C2. For the brightness event the lookup resolves the base entry 7
  (\<^verbatim>\<open>KEY_BRIGHTNESSUP\<close>), for the volume event the base entry 9
  (\<^verbatim>\<open>KEY_VOLUMEUP\<close>). \<^verbatim>\<open>get_event_key_entry\<close> returns the entry one
  past the base exactly when the sample is 0 or (signed) less than the stored last sample
  of that axis, the base entry otherwise, and in both cases stores the sample as the last
  one of that axis and of no other.
\<close>

theorem direction_detection:
  assumes "events_distinct H"
  shows "sparse_keymap_entry_from_scancode H (event_num H EVENT_DISPLAY_BRIGHTNESS) = Some 7 \<and>
         get_event_key_entry H (event_num H EVENT_DISPLAY_BRIGHTNESS) status s =
           (Some (if status = 0 \<or> status <s old_brightness_status s then 8 else 7),
            s\<lparr>old_brightness_status := status\<rparr>) \<and>
         sparse_keymap_entry_from_scancode H (event_num H EVENT_AUDIO_VOLUME) = Some 9 \<and>
         get_event_key_entry H (event_num H EVENT_AUDIO_VOLUME) status s =
           (Some (if status = 0 \<or> status <s old_volume_status s then 10 else 9),
            s\<lparr>old_volume_status := status\<rparr>)"
  using lookup_brightness [OF assms] lookup_volume [OF assms] events_distinct_volume [OF assms]
  by (simp add: get_event_key_entry_def)

theorem direction_detection_witness:
  "events_distinct sample_hdr \<and>
   get_event_key_entry sample_hdr 0x2D 3 (sample_env\<lparr>old_brightness_status := 5\<rparr>) =
     (Some 8, sample_env\<lparr>old_brightness_status := 3\<rparr>) \<and>
   get_event_key_entry sample_hdr 0x2F 6 (sample_env\<lparr>old_volume_status := 5\<rparr>) =
     (Some 9, sample_env\<lparr>old_volume_status := 6\<rparr>)"
  using sample_events_distinct
    direction_detection [OF sample_events_distinct, of 3 "sample_env\<lparr>old_brightness_status := 5\<rparr>"]
    direction_detection [OF sample_events_distinct, of 6 "sample_env\<lparr>old_volume_status := 5\<rparr>"]
  by (simp add: sample_hdr_def)

text \<open>
  C10. At module load both stored samples are -1. The first sample of an axis is a
  register byte: if it is not 0 the base entry is returned (increase), since no byte is
  less than -1, and if it is 0 the entry one past it (decrease).
\<close>

theorem first_sample_direction:
  assumes "events_distinct H"
  shows "old_brightness_status (static_init env) = - 1 \<and>
         old_volume_status (static_init env) = - 1 \<and>
         get_event_key_entry H (event_num H EVENT_DISPLAY_BRIGHTNESS) (ucast (b :: 8 word))
             (static_init env) =
           (Some (if b = 0 then 8 else 7),
            (static_init env)\<lparr>old_brightness_status := ucast b\<rparr>) \<and>
         get_event_key_entry H (event_num H EVENT_AUDIO_VOLUME) (ucast b) (static_init env) =
           (Some (if b = 0 then 10 else 9),
            (static_init env)\<lparr>old_volume_status := ucast b\<rparr>)"
  using lookup_brightness [OF assms] lookup_volume [OF assms] events_distinct_volume [OF assms]
  by (simp add: get_event_key_entry_def ucast_byte_not_sless_m1)

theorem first_sample_direction_witness:
  "events_distinct sample_hdr \<and>
   get_event_key_entry sample_hdr 0x2D 5 (static_init sample_env) =
     (Some 7, (static_init sample_env)\<lparr>old_brightness_status := 5\<rparr>) \<and>
   get_event_key_entry sample_hdr 0x2D 0 (static_init sample_env) =
     (Some 8, (static_init sample_env)\<lparr>old_brightness_status := 0\<rparr>)"
  using sample_events_distinct
    first_sample_direction [OF sample_events_distinct, of sample_env 5]
    first_sample_direction [OF sample_events_distinct, of sample_env 0]
  by (simp add: sample_hdr_def)

subsection \<open>The lid switch\<close>

lemma c_not_neq_0 [simp]: "c_not x \<noteq> 0 \<longleftrightarrow> x = 0"
  by (simp add: c_not_def)

text \<open>
  C8. \<^verbatim>\<open>report_lid_switch\<close> reports the switch \<^verbatim>\<open>SW_LID\<close> as
  true exactly when the status is 0, then synchronises; for the lid event
  \<^verbatim>\<open>do_event_action\<close> does just that on the byte of the lid register: a raw 1
  reports false, a raw 0 reports true.
\<close>

theorem lid_switch_inverted:
  assumes "events_distinct H" and "reg_addr H REG_LID_DETECT \<noteq> 0"
  shows "report_lid_switch H status s =
           (status, emit [InputReportSwitch (key_code H SW_LID) (status = 0), InputSync] s) \<and>
         do_event_action H (event_num H EVENT_LID) s =
           emit [InputReportSwitch (key_code H SW_LID)
                   (ec_read (ucast (reg_addr H REG_LID_DETECT)) s = 0), InputSync] s"
  using events_distinct_lid [OF assms(1)] assms(2)
  by (simp add: report_lid_switch_def do_event_action_def event_binding_def
      report_current_key_def get_event_key_entry_def lookup_lid keymap_nth_0)

theorem lid_switch_inverted_witness:
  "events_distinct sample_hdr \<and> reg_addr sample_hdr REG_LID_DETECT \<noteq> 0 \<and>
   report_lid_switch sample_hdr 1 sample_env =
     (1, emit [InputReportSwitch 0 False, InputSync] sample_env) \<and>
   report_lid_switch sample_hdr 0 sample_env =
     (0, emit [InputReportSwitch 0 True, InputSync] sample_env) \<and>
   do_event_action sample_hdr 0x23 sample_env =
     emit [InputReportSwitch 0 False, InputSync] sample_env"
proof -
  have h: "reg_addr sample_hdr REG_LID_DETECT \<noteq> 0" by (simp add: sample_hdr_def)
  show ?thesis
    using sample_events_distinct h
      lid_switch_inverted [OF sample_events_distinct h, of 1 sample_env]
      lid_switch_inverted [OF sample_events_distinct h, of 0 sample_env]
    by (simp add: sample_hdr_def ec_read_def sample_env_def)
qed

subsection \<open>The interrupt entry point\<close>

lemma in_range_event_handled:
  "\<not> ec_query_ret s <s 0 \<Longrightarrow> \<not> ec_event_num s <s event_num H EVENT_START \<Longrightarrow>
   \<not> event_num H EVENT_END <s ec_event_num s \<Longrightarrow>
     sci_irq_handler H (SCI_IRQ_NUM H) s =
       (IRQ_HANDLED, do_event_action H (ec_event_num s) (emit [EcQueryEventNum] s))"
  by (simp add: sci_irq_handler_def ec_query_event_num_def ec_get_event_num_def emit_def)

text \<open>
  C3. After a query that did not fail, an event number below
  \<^verbatim>\<open>EVENT_START\<close> or above \<^verbatim>\<open>EVENT_END\<close> makes
  \<^verbatim>\<open>sci_irq_handler\<close> return \<^verbatim>\<open>IRQ_NONE\<close>. The state it leaves is
  the state after the query alone: \<^verbatim>\<open>do_event_action\<close> has not run, so the
  statics are as before and nothing is reported.
\<close>

theorem out_of_range_event_not_handled:
  assumes "\<not> ec_query_ret s <s 0"
      and "ec_event_num s <s event_num H EVENT_START \<or> event_num H EVENT_END <s ec_event_num s"
  shows "sci_irq_handler H irq s =
           (IRQ_NONE, if irq = SCI_IRQ_NUM H then emit [EcQueryEventNum] s else s)"
  using assms
  by (auto simp: sci_irq_handler_def ec_query_event_num_def ec_get_event_num_def emit_def)

theorem out_of_range_event_not_handled_witness:
  "\<not> ec_query_ret (sample_env\<lparr>ec_event_num := 0x7F\<rparr>) <s 0 \<and>
   event_num sample_hdr EVENT_END <s ec_event_num (sample_env\<lparr>ec_event_num := 0x7F\<rparr>) \<and>
   sci_irq_handler sample_hdr 0x0A (sample_env\<lparr>ec_event_num := 0x7F\<rparr>) =
     (IRQ_NONE, emit [EcQueryEventNum] (sample_env\<lparr>ec_event_num := 0x7F\<rparr>))"
proof -
  have h1: "\<not> ec_query_ret (sample_env\<lparr>ec_event_num := 0x7F\<rparr>) <s 0"
    by (simp add: sample_env_def)
  have h2: "event_num sample_hdr EVENT_END <s ec_event_num (sample_env\<lparr>ec_event_num := 0x7F\<rparr>)"
    by (simp add: sample_hdr_def)
  show ?thesis
    using h1 h2 out_of_range_event_not_handled [OF h1 disjI2 [OF h2], of "0x0A"]
    by (simp add: sample_hdr_def)
qed

subsection \<open>The camera handler\<close>

text \<open>
  C7. Whatever the status, \<^verbatim>\<open>camera_handler\<close> returns it unchanged and writes
  the camera control register once, with the byte it read from that register OR 2, a
  byte whose bit 1 is set.
\<close>

theorem camera_sets_bit1:
  "camera_handler H status s =
     (status, ec_write (ucast (reg_addr H REG_CAMERA_CONTROL))
                (ec_read (ucast (reg_addr H REG_CAMERA_CONTROL)) s OR 2) s)
   \<and> bit (ec_read (ucast (reg_addr H REG_CAMERA_CONTROL)) s OR 2) 1"
  by (simp add: camera_handler_def Let_def camera_bits bit_simps)

theorem camera_sets_bit1_witness:
  "camera_handler sample_hdr 0 sample_env = (0, ec_write 0xF7B7 3 sample_env) \<and>
   camera_handler sample_hdr 1 sample_env = (1, ec_write 0xF7B7 3 sample_env)"
  using camera_sets_bit1 [of sample_hdr 0 sample_env] camera_sets_bit1 [of sample_hdr 1 sample_env]
  by (simp add: sample_hdr_def ec_read_def sample_env_def)

subsection \<open>The firmware version gate\<close>

lemma c_str_Nil [simp]: "c_str [] = []"
  by (simp add: c_str_def)

lemma c_str_Cons [simp]:
  "c_str (c # cs) = (if (of_char c :: 8 word) = 0 then [] else of_char c # c_str cs)"
  by (simp add: c_str_def)

lemma c_tolower_eq_0 [simp]: "c_tolower c = 0 \<longleftrightarrow> c = 0"
proof (cases "0x41 \<le> c \<and> c \<le> 0x5A")
  case True
  have "c + 0x20 \<noteq> 0"
  proof
    assume "c + 0x20 = 0"
    then have "c = - 0x20" by (simp add: eq_neg_iff_add_eq_0)
    with True show False by simp
  qed
  moreover from True have "c \<noteq> 0" by auto
  ultimately show ?thesis using True by (simp add: c_tolower_def)
next
  case False
  then show ?thesis by (auto simp: c_tolower_def)
qed

text \<open>
  The sign of \<^verbatim>\<open>strncasecmp\<close> is the lexicographic order of the lower-cased
  strings, cut at the NUL and at \<open>n\<close> bytes.
\<close>

lemma strncasecmp_lexord:
  "strncasecmp a b n <s 0 \<longleftrightarrow> caseless_before n a b"
proof (induction n arbitrary: a b)
  case 0
  show ?case by (simp add: caseless_before_def)
next
  case (Suc n)
  show ?case
  proof (cases a)
    case Nil
    then show ?thesis
      by (cases b) (auto simp: caseless_before_def byte_diff_sless_0 [of 0, simplified] word_gt_0)
  next
    case (Cons x xs)
    note a = this
    show ?thesis
    proof (cases b)
      case Nil
      then show ?thesis using a
        by (auto simp: caseless_before_def byte_diff_sless_0 [of _ 0, simplified])
    next
      case (Cons y ys)
      then show ?thesis using a Suc.IH [of xs ys]
        by (auto simp: caseless_before_def byte_diff_sless_0 byte_diff_sless_0 [of _ 0, simplified]
            byte_diff_sless_0 [of 0, simplified] word_gt_0)
    qed
  qed
qed

lemma ec_version_before_iff:
  "ec_version_before version s \<longleftrightarrow> caseless_before 64 (ec_kb3310b_ver s) version"
  by (simp add: ec_version_before_def strncasecmp_lexord)

lemma sample_version_older: "caseless_before 64 ''EC_VER=PQ1D20'' ''EC_VER=PQ1D26''"
  unfolding strncasecmp_lexord [symmetric] by code_simp

lemma sample_version_same: "\<not> caseless_before 64 ''ec_ver=pq1d26'' ''EC_VER=PQ1D26''"
  unfolding strncasecmp_lexord [symmetric] by code_simp

text \<open>
  C4. \<^verbatim>\<open>displaytoggle_handler\<close> returns its status unchanged. It calls
  \<^verbatim>\<open>display_vo_set\<close> for the LCD with that status, and so writes ports,
  exactly when the EC version string is strictly before \<^verbatim>\<open>EC_VER=PQ1D26\<close>
  in the case-insensitive lexicographic order of the first 64 bytes; otherwise it leaves
  the state as it is.
\<close>

theorem displaytoggle_version_gate:
  "displaytoggle_handler status s =
     (status, if caseless_before 64 (ec_kb3310b_ver s) ''EC_VER=PQ1D26''
              then display_vo_set LCD status s else s) \<and>
   (effects (snd (displaytoggle_handler status s)) \<noteq> effects s \<longleftrightarrow>
      caseless_before 64 (ec_kb3310b_ver s) ''EC_VER=PQ1D26'') \<and>
   (caseless_before 64 (ec_kb3310b_ver s) ''EC_VER=PQ1D26'' \<longleftrightarrow>
      strncasecmp (ec_kb3310b_ver s) ''EC_VER=PQ1D26'' 64 <s 0)"
  by (simp add: displaytoggle_handler_def ec_version_before_iff display_vo_set_effects_neq
      strncasecmp_lexord)

theorem displaytoggle_version_gate_witness:
  "caseless_before 64 (ec_kb3310b_ver sample_env) ''EC_VER=PQ1D26'' \<and>
   displaytoggle_handler 1 sample_env = (1, display_vo_set LCD 1 sample_env) \<and>
   \<not> caseless_before 64 (ec_kb3310b_ver (sample_env\<lparr>ec_kb3310b_ver := ''ec_ver=pq1d26''\<rparr>))
       ''EC_VER=PQ1D26'' \<and>
   displaytoggle_handler 1 (sample_env\<lparr>ec_kb3310b_ver := ''ec_ver=pq1d26''\<rparr>) =
     (1, sample_env\<lparr>ec_kb3310b_ver := ''ec_ver=pq1d26''\<rparr>)"
proof -
  have h1: "caseless_before 64 (ec_kb3310b_ver sample_env) ''EC_VER=PQ1D26''"
    using sample_version_older by (simp add: sample_env_def)
  have h2: "\<not> caseless_before 64
      (ec_kb3310b_ver (sample_env\<lparr>ec_kb3310b_ver := ''ec_ver=pq1d26''\<rparr>)) ''EC_VER=PQ1D26''"
    using sample_version_same by simp
  show ?thesis
    using h1 h2 displaytoggle_version_gate [of 1 sample_env]
      displaytoggle_version_gate [of 1 "sample_env\<lparr>ec_kb3310b_ver := ''ec_ver=pq1d26''\<rparr>"]
    by simp
qed

subsection \<open>The range of the video output cycle index\<close>

lemma handlers_keep_vos [simp]:
  "video_output_status (snd (crt_detect_handler st s)) = video_output_status s"
  "video_output_status (snd (displaytoggle_handler st s)) = video_output_status s"
  "video_output_status (snd (camera_handler H st s)) = video_output_status s"
  "video_output_status (snd (usb2_handler st s)) = video_output_status s"
  "video_output_status (snd (usb0_handler st s)) = video_output_status s"
  "video_output_status (snd (ac_bat_handler st s)) = video_output_status s"
  by (simp_all add: crt_detect_handler_def displaytoggle_handler_def camera_handler_def
      usb2_handler_def usb0_handler_def ac_bat_handler_def Let_def prim_defs)

lemma report_current_key_vos [simp]:
  "video_output_status (report_current_key H e st s) = video_output_status s"
  by (simp add: report_current_key_def get_event_key_entry_def report_lid_switch_def
      sparse_keymap_report_entry_def emit_def split: option.splits ke_type.splits)

lemma switchvideomode_vos_detected:
  "video_output_status s \<in> {0, 1, 2, 3, 4} \<Longrightarrow> crt_detected H s \<Longrightarrow>
     video_output_status (snd (switchvideomode_handler H st s)) =
       (if video_output_status s = 4 then 1 else video_output_status s + 1) \<and>
     video_output_status (snd (switchvideomode_handler H st s)) \<in> {1, 2, 3, 4}"
  by (auto simp: switchvideomode_handler_def Let_def crt_detected_def OFF_def)

lemma switchvideomode_vos_emit:
  "video_output_status (snd (switchvideomode_handler H st (emit es s))) =
     video_output_status (snd (switchvideomode_handler H st s))"
  by (simp add: switchvideomode_handler_def Let_def ec_read_def emit_def)

lemma events_distinct_toggle:
  "events_distinct H \<Longrightarrow> event_num H EVENT_SWITCHVIDEOMODE \<noteq> event_num H EVENT_LID"
  by (auto simp: events_distinct_def)

text \<open>
  Dispatch moves the index only through the switch-video-mode handler: every other
  event, with or without a handler, leaves it as it was.
\<close>

lemma do_event_action_vos_eq:
  "events_distinct H \<Longrightarrow>
     video_output_status (do_event_action H e s) =
       (if e = event_num H EVENT_SWITCHVIDEOMODE
        then video_output_status (snd (switchvideomode_handler H 0 s))
        else video_output_status s)"
  using events_distinct_toggle [of H]
  by (simp add: do_event_action_def event_binding_def Let_def split_beta)

lemma emit_fields [simp]:
  "video_output_status (emit es s) = video_output_status s"
  "ec_event_num (emit es s) = ec_event_num s"
  "ec_query_ret (emit es s) = ec_query_ret s"
  by (simp_all add: emit_def)

lemma sci_irq_handler_vos_eq:
  assumes "events_distinct H"
  shows "video_output_status (snd (sci_irq_handler H irq s)) =
       (if invokes_toggle H irq s
        then video_output_status (snd (switchvideomode_handler H 0 s))
        else video_output_status s)"
proof -
  have off: "\<not> crt_detected H s \<Longrightarrow>
      video_output_status (snd (switchvideomode_handler H 0 s)) = video_output_status s"
    by (simp add: switchvideomode_off)
  have act: "video_output_status (do_event_action H (ec_event_num s) (emit [EcQueryEventNum] s)) =
       (if ec_event_num s = event_num H EVENT_SWITCHVIDEOMODE
        then video_output_status (snd (switchvideomode_handler H 0 s))
        else video_output_status s)"
    by (simp add: do_event_action_vos_eq [OF assms] switchvideomode_vos_emit)
  show ?thesis
  proof (cases "invokes_toggle H irq s")
    case True
    then show ?thesis
      using act
      by (auto simp: sci_irq_handler_def ec_query_event_num_def ec_get_event_num_def Let_def
          invokes_toggle_def)
  next
    case False
    then show ?thesis
      using off act
      by (auto simp: sci_irq_handler_def ec_query_event_num_def ec_get_event_num_def Let_def
          invokes_toggle_def)
  qed
qed

lemma sci_irq_init_vos [simp]:
  "video_output_status (snd (sci_irq_init H s)) = video_output_status s"
  by (simp add: sci_irq_init_def msr_clear_bit10_def prim_defs Let_def split_beta)

lemma reachable_vos:
  assumes "events_distinct H" and "reachable H toggled s"
  shows "if toggled then video_output_status s \<in> {1, 2, 3, 4} else video_output_status s = 0"
  using assms(2)
proof (induction rule: reachable.induct)
  case (load env)
  show ?case by simp
next
  case (interrupt toggled s irq)
  show ?case
  proof (cases "invokes_toggle H irq s")
    case True
    then have crt: "crt_detected H s" by (simp add: invokes_toggle_def)
    from interrupt.IH have "video_output_status s \<in> {0, 1, 2, 3, 4}"
      by (auto split: if_splits)
    from switchvideomode_vos_detected [OF this crt, of 0, THEN conjunct2] True show ?thesis
      by (simp only: sci_irq_handler_vos_eq [OF assms(1)] if_True simp_thms)
  next
    case False
    with interrupt.IH show ?thesis
      by (simp only: sci_irq_handler_vos_eq [OF assms(1)] if_False simp_thms)
  qed
next
  case (arm toggled s)
  then show ?case by (simp only: sci_irq_init_vos)
next
  case (other toggled s s')
  then show ?case by (auto split: if_splits)
qed

text \<open>
  C6, as the code has it. The index is 0 when the module is loaded, which is not in
  [1,4]: the comment of the handler lists 0 as the state "no CRT connected".
\<close>

theorem video_output_status_initially_zero:
  "reachable sample_hdr False (static_init sample_env) \<and>
   \<not> (1 \<le>s video_output_status (static_init sample_env) \<and>
      video_output_status (static_init sample_env) \<le>s 4)"
  by (simp add: reachable.load word_sle_eq)

text \<open>
  C6, amended. In every state of the driver's lifetime the index is one of 0, 1, 2, 3, 4.
  It is 0 as long as no interrupt has invoked the switch-video-mode handler with the CRT
  detected, whatever other events were served, and one of 1, 2, 3, 4 ever after. An
  invocation of the handler with the CRT detected leaves it in [1,4], one more than
  before and 1 after 4; an invocation without the CRT leaves it as it was.
\<close>

theorem video_output_status_range:
  assumes "events_distinct H" and "reachable H toggled s"
  shows "video_output_status s \<in> {0, 1, 2, 3, 4} \<and>
         (\<not> toggled \<longrightarrow> video_output_status s = 0) \<and>
         (toggled \<longrightarrow> video_output_status s \<in> {1, 2, 3, 4}) \<and>
         (crt_detected H s \<longrightarrow>
            video_output_status (snd (switchvideomode_handler H st s)) \<in> {1, 2, 3, 4} \<and>
            video_output_status (snd (switchvideomode_handler H st s)) =
              (if video_output_status s = 4 then 1 else video_output_status s + 1)) \<and>
         (\<not> crt_detected H s \<longrightarrow>
            video_output_status (snd (switchvideomode_handler H st s)) = video_output_status s)"
proof -
  from reachable_vos [OF assms]
  have flag: "(\<not> toggled \<longrightarrow> video_output_status s = 0) \<and>
              (toggled \<longrightarrow> video_output_status s \<in> {1, 2, 3, 4})"
    by (auto split: if_splits)
  then have range: "video_output_status s \<in> {0, 1, 2, 3, 4}" by auto
  from flag range switchvideomode_vos_detected [OF range, of H st] show ?thesis
    by (auto simp: switchvideomode_off)
qed

theorem video_output_status_range_witness:
  "events_distinct sample_hdr \<and>
   reachable sample_hdr False
     (snd (sci_irq_handler sample_hdr 0x0A (static_init (sample_env\<lparr>ec_event_num := 0x28\<rparr>)))) \<and>
   video_output_status
     (snd (sci_irq_handler sample_hdr 0x0A (static_init (sample_env\<lparr>ec_event_num := 0x28\<rparr>)))) = 0 \<and>
   reachable sample_hdr True
     (snd (sci_irq_handler sample_hdr 0x0A (static_init (sample_env\<lparr>ec_event_num := 0x2B\<rparr>)))) \<and>
   video_output_status
     (snd (sci_irq_handler sample_hdr 0x0A (static_init (sample_env\<lparr>ec_event_num := 0x2B\<rparr>))))
     \<in> {1, 2, 3, 4}"
proof -
  have camera: "\<not> invokes_toggle sample_hdr 0x0A (static_init (sample_env\<lparr>ec_event_num := 0x28\<rparr>))"
    by (simp add: invokes_toggle_def sample_hdr_def static_init_def sample_env_def)
  have toggle: "invokes_toggle sample_hdr 0x0A (static_init (sample_env\<lparr>ec_event_num := 0x2B\<rparr>))"
    by (simp add: invokes_toggle_def sample_hdr_def static_init_def sample_env_def
        crt_detected_def ec_read_def)
  have r1: "reachable sample_hdr False
      (snd (sci_irq_handler sample_hdr 0x0A (static_init (sample_env\<lparr>ec_event_num := 0x28\<rparr>))))"
    using reachable.interrupt [OF reachable.load, of sample_hdr "0x0A" "sample_env\<lparr>ec_event_num := 0x28\<rparr>"]
      camera by simp
  have r2: "reachable sample_hdr True
      (snd (sci_irq_handler sample_hdr 0x0A (static_init (sample_env\<lparr>ec_event_num := 0x2B\<rparr>))))"
    using reachable.interrupt [OF reachable.load, of sample_hdr "0x0A" "sample_env\<lparr>ec_event_num := 0x2B\<rparr>"]
      toggle by simp
  show ?thesis
    using sample_events_distinct r1 r2
      video_output_status_range [OF sample_events_distinct r1, of 0]
      video_output_status_range [OF sample_events_distinct r2, of 0]
    by simp
qed

subsection \<open>Interrupt arming\<close>

text \<open>
  When the flush query returns 0, \<^verbatim>\<open>sci_irq_init\<close> goes on with
  \<^verbatim>\<open>mdelay(10000)\<close> right after the query.
\<close>

lemma sci_irq_init_delay:
  "ec_query_ret s = 0 \<Longrightarrow>
     take 2 (drop (length (effects s)) (effects (snd (sci_irq_init H s)))) =
       [EcQueryEventNum, Mdelay 10000]"
  by (simp add: sci_irq_init_def msr_clear_bit10_def prim_defs Let_def split_beta)

text \<open>
  C9. The run of \<^verbatim>\<open>sci_irq_init\<close> on the sample machine: the delay issued
  right after the flush query is \<^verbatim>\<open>mdelay(10000)\<close>, ten thousand
  milliseconds, which is not below a hundred milliseconds.
\<close>

theorem sci_irq_init_settling_delay:
  "sci_irq_init sample_hdr sample_env =
     (0, sample_env\<lparr>msr := (msr sample_env)
            (0x80000024 := (0, 0xB000), 0x80000025 := (0, 0xB000), 0x80000023 := (0, 0xB00A)),
          effects := [EcQueryEventNum, Mdelay 10000, LocalIrqSave,
            Wrmsr 0x80000024 0 0xB000, Wrmsr 0x80000025 0 0xB000, Wrmsr 0x80000023 0 0xB00A,
            LocalIrqRestore,
            Outl 0x800 0xB0A0, Outl 0x800 0xB0A4, Outl 0x800 0xB0B8]\<rparr>) \<and>
   \<not> (10000 :: nat) < 100"
  by (simp add: sci_irq_init_def msr_clear_bit10_def prim_defs sample_env_def sample_hdr_def Let_def)

end
